theory Spec2Isabelle
  imports Main
begin

section \<open>DNS zone resolution, validation and record pre-creation (upup/pkg/fi/cloudup/dns.go)\<close>

text \<open>
  A shallow embedding of \<^verbatim>\<open>dns.go\<close>. Go strings are byte sequences and are modelled as
  \<^typ>\<open>string\<close>. Every call the code makes on the DNS provider or on the public resolver is
  recorded, in order, in a list of \<open>call\<close> values that each function returns next to its
  result; a Go \<^verbatim>\<open>error\<close> result is an \<open>error option\<close> (\<open>None\<close> is \<^verbatim>\<open>nil\<close>).
  Log output (glog) is not modelled.
\<close>

subsection \<open>The strings package\<close>

text \<open>\<^verbatim>\<open>strings.HasSuffix\<close> and \<^verbatim>\<open>strings.TrimSuffix\<close> of the Go standard library.\<close>

definition HasSuffix :: "string \<Rightarrow> string \<Rightarrow> bool" where
  "HasSuffix s suffix \<longleftrightarrow>
     length s \<ge> length suffix \<and> drop (length s - length suffix) s = suffix"

definition TrimSuffix :: "string \<Rightarrow> string \<Rightarrow> string" where
  "TrimSuffix s suffix =
     (if HasSuffix s suffix then take (length s - length suffix) s else s)"

subsection \<open>Constants\<close>

definition PlaceholderIP :: string where
  "PlaceholderIP = ''203.0.113.123''"

definition PlaceholderTTL :: int where
  "PlaceholderTTL = 10"

text \<open>\<^verbatim>\<open>rrstype.A\<close> of the dnsprovider package.\<close>

definition rrstype_A :: string where
  "rrstype_A = ''A''"

subsection \<open>The cluster configuration (read-only input)\<close>

record EtcdMemberSpec =
  member_Name :: string

record EtcdClusterSpec =
  etcd_Name :: string
  etcd_Members :: "EtcdMemberSpec list"

record ClusterSpec =
  DNSZone :: string
  MasterPublicName :: string
  MasterInternalName :: string
  EtcdClusters :: "EtcdClusterSpec list"

record Cluster =
  ObjectMeta_Name :: string
  Spec :: ClusterSpec

subsection \<open>The DNS provider (dnsprovider interfaces)\<close>

text \<open>
  A provider object is the record of what its methods answer. \<open>rrs_New\<close> builds a record
  set without contacting the provider; \<open>changeset_Apply\<close> answers the error of
  \<^verbatim>\<open>changeset.Apply()\<close> for the additions queued so far.
\<close>

record ResourceRecordSet =
  rrs_Name :: string
  rrs_Rrdatas :: "string list"
  rrs_Ttl :: int
  rrs_Type :: string

definition rrs_New :: "string \<Rightarrow> string list \<Rightarrow> int \<Rightarrow> string \<Rightarrow> ResourceRecordSet" where
  "rrs_New name rrdatas ttl rrstype =
     \<lparr>rrs_Name = name, rrs_Rrdatas = rrdatas, rrs_Ttl = ttl, rrs_Type = rrstype\<rparr>"

record ResourceRecordSets =
  rrsets_List :: "string + ResourceRecordSet list"
  changeset_Apply :: "ResourceRecordSet list \<Rightarrow> string option"

record Zone =
  zone_ID :: string
  zone_Name :: string
  zone_ResourceRecordSets :: "ResourceRecordSets option"

record ZonesProvider =
  zones_List :: "string + Zone list"

record DNSProvider =
  dns_Zones :: "ZonesProvider option"

record Cloud =
  cloud_DNS :: "string + DNSProvider"

text \<open>\<^verbatim>\<open>net.NS\<close> and the process-wide state the functions read.\<close>

record NS =
  ns_Host :: string

text \<open>
  \<open>model_UsePrivateDNS\<close> stands for \<^verbatim>\<open>KopsModelContext.UsePrivateDNS\<close> of the model
  package, which is outside this file: it is a parameter here. \<open>net_LookupNS\<close> answers
  both results of \<^verbatim>\<open>net.LookupNS\<close>, the records and the error.
\<close>

record Runtime =
  model_UsePrivateDNS :: "Cluster \<Rightarrow> bool"
  featureflag_DNSPreCreate_Enabled :: bool
  os_environ :: "string \<rightharpoonup> string"
  net_LookupNS :: "string \<Rightarrow> NS list \<times> string option"

text \<open>\<^verbatim>\<open>os.Getenv\<close>: the value of the variable, empty when it is not set.\<close>

definition os_Getenv :: "Runtime \<Rightarrow> string \<Rightarrow> string" where
  "os_Getenv rt key = (case os_environ rt key of None \<Rightarrow> [] | Some v \<Rightarrow> v)"

subsection \<open>Errors and calls\<close>

text \<open>One constructor for each \<^verbatim>\<open>fmt.Errorf\<close> of the file, with the values it formats.\<close>

datatype error =
    ProviderUnavailable string
  | ZonesProviderUnavailable
  | ZoneLookupFailed string
  | ZoneNotFound string
  | AmbiguousZone string
  | NSLookupFailed string string
  | NoNSRecords string
  | RecordSetsUnavailable string
  | RecordListFailed string string
  | ChangesetApplyFailed string

datatype call =
    CallCloudDNS
  | CallDNSZones
  | CallZonesList
  | CallZoneResourceRecordSets
  | CallRrsList
  | CallStartChangeset
  | CallChangesetAdd ResourceRecordSet
  | CallChangesetApply "ResourceRecordSet list"
  | CallLookupNS string

subsection \<open>findZone\<close>

fun findZone_loop :: "string \<Rightarrow> string \<Rightarrow> Zone list \<Rightarrow> Zone list \<Rightarrow> Zone list" where
  "findZone_loop dnsZone findName [] matches = matches"
| "findZone_loop dnsZone findName (zone # zones) matches =
     (let zid = zone_ID zone;
          name = TrimSuffix (zone_Name zone) ''.''
      in if zid = dnsZone \<or> name = findName
         then findZone_loop dnsZone findName zones (matches @ [zone])
         else findZone_loop dnsZone findName zones matches)"

definition findZone :: "Cluster \<Rightarrow> Cloud \<Rightarrow> call list \<times> (error + Zone)" where
  "findZone cluster cloud =
     (case cloud_DNS cloud of
        Inl err \<Rightarrow> ([CallCloudDNS], Inl (ProviderUnavailable err))
      | Inr dns \<Rightarrow>
         (case dns_Zones dns of
            None \<Rightarrow> ([CallCloudDNS, CallDNSZones], Inl ZonesProviderUnavailable)
          | Some zonesProvider \<Rightarrow>
             (case zones_List zonesProvider of
                Inl err \<Rightarrow>
                  ([CallCloudDNS, CallDNSZones, CallZonesList], Inl (ZoneLookupFailed err))
              | Inr zones \<Rightarrow>
                  (let findName = TrimSuffix (DNSZone (Spec cluster)) ''.'';
                       matches = findZone_loop (DNSZone (Spec cluster)) findName zones []
                   in ([CallCloudDNS, CallDNSZones, CallZonesList],
                       if length matches = 0
                       then Inl (ZoneNotFound (DNSZone (Spec cluster)))
                       else if length matches > 1
                       then Inl (AmbiguousZone (DNSZone (Spec cluster)))
                       else Inr (matches ! 0))))))"

subsection \<open>validateDNS\<close>

text \<open>
  The loop that collects the hosts of the NS records only feeds a log line, and is left out.
\<close>

definition validateDNS :: "Runtime \<Rightarrow> Cluster \<Rightarrow> Cloud \<Rightarrow> call list \<times> error option" where
  "validateDNS rt cluster cloud =
     (if model_UsePrivateDNS rt cluster then ([], None)
      else
        (case findZone cluster cloud of
           (t, Inl err) \<Rightarrow> (t, Some err)
         | (t, Inr zone) \<Rightarrow>
            (let dnsName = TrimSuffix (zone_Name zone) ''.'';
                 (ns, err) = net_LookupNS rt dnsName
             in (t @ [CallLookupNS dnsName],
                 (case err of
                    Some e \<Rightarrow> Some (NSLookupFailed dnsName e)
                  | None \<Rightarrow>
                     if length ns = 0
                     then (if os_Getenv rt ''DNS_IGNORE_NS_CHECK'' = []
                           then Some (NoNSRecords dnsName)
                           else None)
                     else None)))))"

subsection \<open>buildPrecreateDNSHostnames\<close>

fun etcdMembers_loop ::
  "string \<Rightarrow> string \<Rightarrow> EtcdMemberSpec list \<Rightarrow> string list \<Rightarrow> string list" where
  "etcdMembers_loop etcClusterName dnsInternalSuffix [] dnsHostnames = dnsHostnames"
| "etcdMembers_loop etcClusterName dnsInternalSuffix (etcdClusterMember # members) dnsHostnames =
     (let name = etcClusterName @ ''-'' @ member_Name etcdClusterMember @ dnsInternalSuffix
      in etcdMembers_loop etcClusterName dnsInternalSuffix members (dnsHostnames @ [name]))"

fun etcdClusters_loop :: "string \<Rightarrow> EtcdClusterSpec list \<Rightarrow> string list \<Rightarrow> string list" where
  "etcdClusters_loop dnsInternalSuffix [] dnsHostnames = dnsHostnames"
| "etcdClusters_loop dnsInternalSuffix (etcdCluster # clusters) dnsHostnames =
     (let etcClusterName0 = ''etcd-'' @ etcd_Name etcdCluster;
          etcClusterName = (if etcd_Name etcdCluster = ''main'' then ''etcd'' else etcClusterName0)
      in etcdClusters_loop dnsInternalSuffix clusters
           (etcdMembers_loop etcClusterName dnsInternalSuffix (etcd_Members etcdCluster)
              dnsHostnames))"

definition buildPrecreateDNSHostnames :: "Cluster \<Rightarrow> string list" where
  "buildPrecreateDNSHostnames cluster =
     (let dnsInternalSuffix = ''.internal.'' @ ObjectMeta_Name cluster;
          dnsHostnames0 = [];
          dnsHostnames1 =
            (if MasterPublicName (Spec cluster) \<noteq> []
             then dnsHostnames0 @ [MasterPublicName (Spec cluster)] else dnsHostnames0);
          dnsHostnames2 =
            (if MasterInternalName (Spec cluster) \<noteq> []
             then dnsHostnames1 @ [MasterInternalName (Spec cluster)] else dnsHostnames1)
      in etcdClusters_loop dnsInternalSuffix (EtcdClusters (Spec cluster)) dnsHostnames2)"

subsection \<open>precreateDNS\<close>

text \<open>The loop that fills \<^verbatim>\<open>recordsMap\<close>: a later record replaces an earlier one of the same key.\<close>

fun recordsMap_loop ::
  "ResourceRecordSet list \<Rightarrow> (string \<rightharpoonup> ResourceRecordSet) \<Rightarrow> (string \<rightharpoonup> ResourceRecordSet)" where
  "recordsMap_loop [] recordsMap = recordsMap"
| "recordsMap_loop (r # records) recordsMap =
     (let name = TrimSuffix (rrs_Name r) ''.'';
          key = rrs_Type r @ ''::'' @ name
      in recordsMap_loop records (recordsMap(key \<mapsto> r)))"

text \<open>
  The loop over the desired hostnames. Its state is the changeset (the additions queued so
  far) and \<^verbatim>\<open>created\<close>. Both branches of the test on \<^verbatim>\<open>len(rrdatas)\<close> set
  \<^verbatim>\<open>found\<close>, as in the source.
\<close>

fun precreate_loop ::
  "(string \<rightharpoonup> ResourceRecordSet) \<Rightarrow> string list \<Rightarrow>
   ResourceRecordSet list \<times> string list \<Rightarrow> ResourceRecordSet list \<times> string list" where
  "precreate_loop recordsMap [] (changeset, created) = (changeset, created)"
| "precreate_loop recordsMap (h # dnsHostnames) (changeset, created) =
     (let dnsHostname = TrimSuffix h ''.'';
          dnsRecord = recordsMap (''A::'' @ dnsHostname);
          found =
            (case dnsRecord of
               None \<Rightarrow> False
             | Some r \<Rightarrow> (if length (rrs_Rrdatas r) > 0 then True else True))
      in if found then precreate_loop recordsMap dnsHostnames (changeset, created)
         else precreate_loop recordsMap dnsHostnames
                (changeset @ [rrs_New dnsHostname [PlaceholderIP] PlaceholderTTL rrstype_A],
                 created @ [dnsHostname]))"

definition precreateDNS :: "Runtime \<Rightarrow> Cluster \<Rightarrow> Cloud \<Rightarrow> call list \<times> error option" where
  "precreateDNS rt cluster cloud =
     (if \<not> featureflag_DNSPreCreate_Enabled rt then ([], None)
      else
        (let dnsHostnames = buildPrecreateDNSHostnames cluster
         in if length dnsHostnames = 0 then ([], None)
            else
              (case findZone cluster cloud of
                 (t, Inl err) \<Rightarrow> (t, Some err)
               | (t, Inr zone) \<Rightarrow>
                  (case zone_ResourceRecordSets zone of
                     None \<Rightarrow>
                       (t @ [CallZoneResourceRecordSets],
                        Some (RecordSetsUnavailable (zone_Name zone)))
                   | Some rrs \<Rightarrow>
                      (case rrsets_List rrs of
                         Inl err \<Rightarrow>
                           (t @ [CallZoneResourceRecordSets, CallRrsList],
                            Some (RecordListFailed (zone_Name zone) err))
                       | Inr records \<Rightarrow>
                          (let recordsMap = recordsMap_loop records Map.empty;
                               (changeset, created) =
                                 precreate_loop recordsMap dnsHostnames ([], []);
                               t' = t @ [CallZoneResourceRecordSets, CallRrsList,
                                         CallStartChangeset] @ map CallChangesetAdd changeset
                           in if length created \<noteq> 0
                              then
                                (case changeset_Apply rrs changeset of
                                   Some err \<Rightarrow>
                                     (t' @ [CallChangesetApply changeset],
                                      Some (ChangesetApplyFailed err))
                                 | None \<Rightarrow> (t' @ [CallChangesetApply changeset], None))
                              else (t', None)))))))"


section \<open>The vocabulary of the specification\<close>

text \<open>
  The definitions of this section follow the words of the specification, not the code: the
  theorems below relate them to the functions above.
\<close>

text \<open>
  Stripping a single trailing dot: the normalisation of zone names, targets and hostnames.
\<close>

definition strip_trailing_dot :: "string \<Rightarrow> string" where
  "strip_trailing_dot s = (if s \<noteq> [] \<and> last s = CHR ''.'' then butlast s else s)"

text \<open>
  A zone matches a target when its raw ID is the target as given, or its normalised name
  is the normalised target.
\<close>

definition zone_matches :: "string \<Rightarrow> Zone \<Rightarrow> bool" where
  "zone_matches target z \<longleftrightarrow>
     zone_ID z = target \<or> strip_trailing_dot (zone_Name z) = strip_trailing_dot target"

text \<open>
  The lookup key of a record set, \<^verbatim>\<open>type::normalized-name\<close>, and the keys of a listing.
\<close>

definition record_key :: "ResourceRecordSet \<Rightarrow> string" where
  "record_key r = rrs_Type r @ ''::'' @ strip_trailing_dot (rrs_Name r)"

definition existing_keys :: "ResourceRecordSet list \<Rightarrow> string set" where
  "existing_keys records = record_key ` set records"

text \<open>
  The placeholder record of a hostname: an A record of the placeholder address, TTL 10.
\<close>

definition placeholder_record :: "string \<Rightarrow> ResourceRecordSet" where
  "placeholder_record h =
     \<lparr>rrs_Name = h, rrs_Rrdatas = [''203.0.113.123''], rrs_Ttl = 10, rrs_Type = ''A''\<rparr>"

text \<open>
  The desired hostnames, normalised, whose key \<^verbatim>\<open>A::hostname\<close> no listed record has; each
  occurrence in the derived list is kept.
\<close>

definition missing_hostnames :: "Cluster \<Rightarrow> ResourceRecordSet list \<Rightarrow> string list" where
  "missing_hostnames cluster records =
     filter (\<lambda>h. (''A::'' @ h) \<notin> existing_keys records)
       (map strip_trailing_dot (buildPrecreateDNSHostnames cluster))"

text \<open>
  The hostname of an etcd member, with the fixed special case of the cluster \<^verbatim>\<open>main\<close>.
\<close>

definition etcd_hostname :: "string \<Rightarrow> string \<Rightarrow> string \<Rightarrow> string" where
  "etcd_hostname clusterName memberName objectName =
     (if clusterName = ''main'' then ''etcd'' else ''etcd-'' @ clusterName)
       @ ''-'' @ memberName @ ''.internal.'' @ objectName"

text \<open>
  The additions queued on the changeset and the batches applied, read off the calls made.
\<close>

fun queued_adds :: "call list \<Rightarrow> ResourceRecordSet list" where
  "queued_adds [] = []"
| "queued_adds (CallChangesetAdd r # cs) = r # queued_adds cs"
| "queued_adds (c # cs) = queued_adds cs"

fun apply_calls :: "call list \<Rightarrow> ResourceRecordSet list list" where
  "apply_calls [] = []"
| "apply_calls (CallChangesetApply rs # cs) = rs # apply_calls cs"
| "apply_calls (c # cs) = apply_calls cs"

section \<open>Example inputs\<close>

text \<open>
  A provider whose every call succeeds, with the given zones and record listings; a cluster
  named \<^verbatim>\<open>foo\<close>; and the process-wide state.
\<close>

definition example_rrsets :: "ResourceRecordSet list \<Rightarrow> ResourceRecordSets" where
  "example_rrsets records = \<lparr>rrsets_List = Inr records, changeset_Apply = (\<lambda>_. None)\<rparr>"

definition example_zone :: "string \<Rightarrow> string \<Rightarrow> ResourceRecordSet list \<Rightarrow> Zone" where
  "example_zone zid name records =
     \<lparr>zone_ID = zid, zone_Name = name,
      zone_ResourceRecordSets = Some (example_rrsets records)\<rparr>"

definition example_cloud :: "Zone list \<Rightarrow> Cloud" where
  "example_cloud zones =
     \<lparr>cloud_DNS = Inr \<lparr>dns_Zones = Some \<lparr>zones_List = Inr zones\<rparr>\<rparr>\<rparr>"

definition example_cluster ::
  "string \<Rightarrow> string \<Rightarrow> string \<Rightarrow> EtcdClusterSpec list \<Rightarrow> Cluster" where
  "example_cluster dnsZone public internal etcd =
     \<lparr>ObjectMeta_Name = ''foo'',
      Spec = \<lparr>DNSZone = dnsZone, MasterPublicName = public,
              MasterInternalName = internal, EtcdClusters = etcd\<rparr>\<rparr>"

definition example_runtime ::
  "bool \<Rightarrow> bool \<Rightarrow> (string \<rightharpoonup> string) \<Rightarrow> NS list \<times> string option \<Rightarrow> Runtime" where
  "example_runtime private enabled env answer =
     \<lparr>model_UsePrivateDNS = (\<lambda>_. private), featureflag_DNSPreCreate_Enabled = enabled,
      os_environ = env, net_LookupNS = (\<lambda>_. answer)\<rparr>"

definition example_flag_on :: Runtime where
  "example_flag_on = example_runtime False True Map.empty ([], None)"

section \<open>The loops as list functions\<close>

lemma HasSuffix_dot: "HasSuffix s ''.'' \<longleftrightarrow> s \<noteq> [] \<and> last s = CHR ''.''"
proof (cases s rule: rev_cases)
  case Nil
  then show ?thesis by (simp add: HasSuffix_def)
next
  case (snoc ys y)
  then show ?thesis by (simp add: HasSuffix_def)
qed

lemma TrimSuffix_dot: "TrimSuffix s ''.'' = strip_trailing_dot s"
  by (simp add: TrimSuffix_def HasSuffix_dot strip_trailing_dot_def butlast_conv_take)

lemma findZone_loop_filter:
  "findZone_loop dnsZone findName zones matches =
     matches @ filter (\<lambda>z. zone_ID z = dnsZone \<or> TrimSuffix (zone_Name z) ''.'' = findName) zones"
  by (induction zones arbitrary: matches) (simp_all add: Let_def)

lemma etcdMembers_loop_map:
  "etcdMembers_loop p sfx ms acc = acc @ map (\<lambda>m. p @ ''-'' @ member_Name m @ sfx) ms"
  by (induction ms arbitrary: acc) (simp_all add: Let_def)

lemma etcdClusters_loop_concat:
  "etcdClusters_loop sfx ecs acc =
     acc @ concat (map (\<lambda>ec. map (\<lambda>m. (if etcd_Name ec = ''main'' then ''etcd''
                                         else ''etcd-'' @ etcd_Name ec)
                                        @ ''-'' @ member_Name m @ sfx)
                            (etcd_Members ec)) ecs)"
  by (induction ecs arbitrary: acc) (simp_all add: Let_def etcdMembers_loop_map)

lemma recordsMap_loop_dom:
  "dom (recordsMap_loop records m) = dom m \<union> existing_keys records"
  by (induction records arbitrary: m)
     (auto simp: Let_def existing_keys_def record_key_def TrimSuffix_dot)

lemma precreate_loop_filter:
  "precreate_loop m hs (changeset, created) =
     (changeset @ map placeholder_record
        (filter (\<lambda>h. m (''A::'' @ h) = None) (map (\<lambda>h. TrimSuffix h ''.'') hs)),
      created @ filter (\<lambda>h. m (''A::'' @ h) = None) (map (\<lambda>h. TrimSuffix h ''.'') hs))"
proof (induction hs arbitrary: changeset created)
  case Nil
  then show ?case by simp
next
  case (Cons h hs)
  show ?case
  proof (cases "m (''A::'' @ TrimSuffix h ''.'')")
    case None
    then show ?thesis
      by (simp add: Cons.IH Let_def placeholder_record_def rrs_New_def PlaceholderIP_def
          PlaceholderTTL_def rrstype_A_def)
  next
    case (Some r)
    then show ?thesis by (simp add: Cons.IH Let_def)
  qed
qed

lemma queued_adds_append: "queued_adds (xs @ ys) = queued_adds xs @ queued_adds ys"
  by (induction xs rule: queued_adds.induct) simp_all

lemma queued_adds_map_Add: "queued_adds (map CallChangesetAdd rs) = rs"
  by (induction rs) simp_all

lemma apply_calls_append: "apply_calls (xs @ ys) = apply_calls xs @ apply_calls ys"
  by (induction xs rule: apply_calls.induct) simp_all

lemma apply_calls_map_Add: "apply_calls (map CallChangesetAdd rs) = []"
  by (induction rs) simp_all

lemma findZone_trace:
  "fst (findZone cluster cloud) = t \<Longrightarrow> queued_adds t = [] \<and> apply_calls t = []"
  by (auto simp: findZone_def Let_def split: sum.splits option.splits)

section \<open>Evaluating the examples\<close>

lemma example_cloud_fields:
  "cloud_DNS (example_cloud zs) = Inr \<lparr>dns_Zones = Some \<lparr>zones_List = Inr zs\<rparr>\<rparr>"
  "dns_Zones \<lparr>dns_Zones = Some \<lparr>zones_List = Inr zs\<rparr>\<rparr> = Some \<lparr>zones_List = Inr zs\<rparr>"
  "zones_List \<lparr>zones_List = Inr zs\<rparr> = Inr zs"
  by (simp_all add: example_cloud_def)

lemma findZone_example:
  "findZone (example_cluster ''foo.io'' p i e) (example_cloud [example_zone ''Z1'' ''foo.io.'' rs]) =
     ([CallCloudDNS, CallDNSZones, CallZonesList], Inr (example_zone ''Z1'' ''foo.io.'' rs))"
  by (simp add: findZone_def example_cluster_def example_cloud_def example_zone_def
      TrimSuffix_def HasSuffix_def)

lemma example_flag_on_enabled: "featureflag_DNSPreCreate_Enabled example_flag_on"
  by (simp add: example_flag_on_def example_runtime_def)

lemma example_hostnames:
  "buildPrecreateDNSHostnames (example_cluster z p i []) =
     (if p \<noteq> [] then [p] else []) @ (if i \<noteq> [] then [i] else [])"
  by (simp add: buildPrecreateDNSHostnames_def Let_def example_cluster_def)

lemma example_zone_rrsets:
  "zone_ResourceRecordSets (example_zone zid name rs) = Some (example_rrsets rs)"
  by (simp add: example_zone_def)

lemma example_rrsets_list: "rrsets_List (example_rrsets rs) = Inr rs"
  by (simp add: example_rrsets_def)

text \<open>
  When pre-creation reaches its loop, the calls it makes and its result are determined by
  the missing hostnames.
\<close>

lemma precreateDNS_at_loop:
  assumes "featureflag_DNSPreCreate_Enabled rt"
    and "buildPrecreateDNSHostnames cluster \<noteq> []"
    and "findZone cluster cloud = (t, Inr zone)"
    and "zone_ResourceRecordSets zone = Some rrs"
    and "rrsets_List rrs = Inr records"
  shows "precreateDNS rt cluster cloud =
     (let queued = map placeholder_record (missing_hostnames cluster records)
      in (t @ [CallZoneResourceRecordSets, CallRrsList, CallStartChangeset]
            @ map CallChangesetAdd queued
            @ (if queued = [] then [] else [CallChangesetApply queued]),
          if queued = [] then None
          else map_option ChangesetApplyFailed (changeset_Apply rrs queued)))"
proof -
  have absent: "(recordsMap_loop records Map.empty k = None) = (k \<notin> existing_keys records)"
    for k
  proof -
    have "(recordsMap_loop records Map.empty k = None)
        = (k \<notin> dom (recordsMap_loop records Map.empty))"
      by (simp add: domIff)
    then show ?thesis by (simp add: recordsMap_loop_dom)
  qed
  show ?thesis
    using assms
    by (simp add: precreateDNS_def Let_def precreate_loop_filter absent missing_hostnames_def
        TrimSuffix_dot split: option.splits)
qed

lemma precreateDNS_queued:
  assumes "featureflag_DNSPreCreate_Enabled rt"
    and "buildPrecreateDNSHostnames cluster \<noteq> []"
    and "findZone cluster cloud = (t, Inr zone)"
    and "zone_ResourceRecordSets zone = Some rrs"
    and "rrsets_List rrs = Inr records"
  shows "queued_adds (fst (precreateDNS rt cluster cloud)) =
           map placeholder_record (missing_hostnames cluster records)"
    and "apply_calls (fst (precreateDNS rt cluster cloud)) =
           (if missing_hostnames cluster records = [] then []
            else [map placeholder_record (missing_hostnames cluster records)])"
proof -
  have t: "queued_adds t = []" "apply_calls t = []"
    using findZone_trace [of cluster cloud t] assms(3) by simp_all
  show "queued_adds (fst (precreateDNS rt cluster cloud)) =
           map placeholder_record (missing_hostnames cluster records)"
    by (simp add: precreateDNS_at_loop [OF assms] Let_def queued_adds_append
        queued_adds_map_Add t del: map_map)
  show "apply_calls (fst (precreateDNS rt cluster cloud)) =
           (if missing_hostnames cluster records = [] then []
            else [map placeholder_record (missing_hostnames cluster records)])"
    by (simp add: precreateDNS_at_loop [OF assms] Let_def apply_calls_append
        apply_calls_map_Add t del: map_map)
qed

text \<open>
  Counting names in the queue, and the key of a placeholder record.
\<close>

lemma count_list_filter:
  "count_list (filter P xs) n = (if P n then count_list xs n else 0)"
  by (induction xs) auto

lemma count_list_map_placeholder:
  "count_list (map rrs_Name (map placeholder_record hs)) n = count_list hs n"
  by (induction hs) (simp_all add: placeholder_record_def)


section \<open>Zone resolution\<close>

text \<open>
  C1. When the provider lists its zones, findZone answers by the zones that match the target:
  none gives ZoneNotFound, exactly one gives that zone, two or more give AmbiguousZone. A
  zone matches when its raw ID is the target as given or its name, a single trailing dot
  stripped, is the target with a single trailing dot stripped.
\<close>

theorem findZone_resolution:
  assumes "cloud_DNS cloud = Inr dns" and "dns_Zones dns = Some zonesProvider"
    and "zones_List zonesProvider = Inr zones"
  shows "snd (findZone cluster cloud) =
     (case filter (zone_matches (DNSZone (Spec cluster))) zones of
        [] \<Rightarrow> Inl (ZoneNotFound (DNSZone (Spec cluster)))
      | [z] \<Rightarrow> Inr z
      | z # z' # rest \<Rightarrow> Inl (AmbiguousZone (DNSZone (Spec cluster))))"
proof -
  let ?ms = "filter (zone_matches (DNSZone (Spec cluster))) zones"
  have loop: "findZone_loop (DNSZone (Spec cluster)) (TrimSuffix (DNSZone (Spec cluster)) ''.'')
      zones [] = ?ms"
    by (simp add: findZone_loop_filter TrimSuffix_dot zone_matches_def [abs_def])
  show ?thesis
    using assms by (cases ?ms rule: list.exhaust; simp add: findZone_def Let_def loop split: list.splits)
qed

theorem findZone_resolution_witness:
  "snd (findZone (example_cluster ''foo.io.'' [] [] [])
          (example_cloud [example_zone ''Z1'' ''foo.io'' [], example_zone ''Z2'' ''bar.io.'' []]))
     = Inr (example_zone ''Z1'' ''foo.io'' [])
   \<and> snd (findZone (example_cluster ''Z2'' [] [] [])
          (example_cloud [example_zone ''Z1'' ''foo.io'' [], example_zone ''Z2'' ''bar.io.'' []]))
     = Inr (example_zone ''Z2'' ''bar.io.'' [])
   \<and> snd (findZone (example_cluster ''baz.io'' [] [] [])
          (example_cloud [example_zone ''Z1'' ''foo.io'' [], example_zone ''Z2'' ''bar.io.'' []]))
     = Inl (ZoneNotFound ''baz.io'')
   \<and> snd (findZone (example_cluster ''foo.io'' [] [] [])
          (example_cloud [example_zone ''Z1'' ''foo.io'' [], example_zone ''foo.io'' ''bar.io.'' []]))
     = Inl (AmbiguousZone ''foo.io'')"
  using findZone_resolution [OF example_cloud_fields, where cluster = "example_cluster ''foo.io.'' [] [] []"]
    findZone_resolution [OF example_cloud_fields, where cluster = "example_cluster ''Z2'' [] [] []"]
    findZone_resolution [OF example_cloud_fields, where cluster = "example_cluster ''baz.io'' [] [] []"]
    findZone_resolution [OF example_cloud_fields, where cluster = "example_cluster ''foo.io'' [] [] []"]
  by (simp add: zone_matches_def strip_trailing_dot_def example_cluster_def example_zone_def)

section \<open>Hostname derivation\<close>

text \<open>
  C5. The derived hostnames are the master public name and the master internal name, each
  when it is set, then one hostname for each member of each etcd cluster, in order:
  \<^verbatim>\<open>etcd-<cluster>-<member>.internal.<object name>\<close>, the prefix being \<^verbatim>\<open>etcd\<close> alone for the
  cluster \<^verbatim>\<open>main\<close>.
\<close>

theorem buildPrecreateDNSHostnames_etcd:
  "buildPrecreateDNSHostnames cluster =
     (if MasterPublicName (Spec cluster) \<noteq> [] then [MasterPublicName (Spec cluster)] else [])
     @ (if MasterInternalName (Spec cluster) \<noteq> [] then [MasterInternalName (Spec cluster)] else [])
     @ concat (map (\<lambda>ec. map (\<lambda>m. etcd_hostname (etcd_Name ec) (member_Name m)
                                    (ObjectMeta_Name cluster))
                             (etcd_Members ec))
                 (EtcdClusters (Spec cluster)))"
  by (simp add: buildPrecreateDNSHostnames_def Let_def etcdClusters_loop_concat
      etcd_hostname_def)

theorem buildPrecreateDNSHostnames_etcd_witness:
  "buildPrecreateDNSHostnames
     (example_cluster ''foo.io'' [] []
        [\<lparr>etcd_Name = ''main'', etcd_Members = [\<lparr>member_Name = ''a''\<rparr>]\<rparr>,
         \<lparr>etcd_Name = ''events'', etcd_Members = [\<lparr>member_Name = ''b''\<rparr>]\<rparr>])
   = [''etcd-a.internal.foo'', ''etcd-events-b.internal.foo'']"
  using buildPrecreateDNSHostnames_etcd [of "example_cluster ''foo.io'' [] []
        [\<lparr>etcd_Name = ''main'', etcd_Members = [\<lparr>member_Name = ''a''\<rparr>]\<rparr>,
         \<lparr>etcd_Name = ''events'', etcd_Members = [\<lparr>member_Name = ''b''\<rparr>]\<rparr>]"]
  by (simp add: example_cluster_def etcd_hostname_def)

section \<open>Validation\<close>

text \<open>
  C7. With private DNS, validateDNS succeeds at once and makes no call: no zone resolution, no
  zone listing, no NS lookup.
\<close>

theorem validateDNS_private_short_circuit:
  "model_UsePrivateDNS rt cluster \<Longrightarrow> validateDNS rt cluster cloud = ([], None)"
  by (simp add: validateDNS_def)

theorem validateDNS_private_short_circuit_witness:
  "validateDNS (example_runtime True False Map.empty ([], None))
     (example_cluster ''foo.io'' [] [] []) (example_cloud []) = ([], None)"
  using validateDNS_private_short_circuit [of "example_runtime True False Map.empty ([], None)"
      "example_cluster ''foo.io'' [] [] []" "example_cloud []"]
  by (simp add: example_runtime_def)

text \<open>
  C6. Without private DNS and with the zone resolved, the result of validateDNS is decided by
  the NS lookup for the zone's name: an error of the lookup gives NSLookupFailed; no
  error and no NS record gives NoNSRecords unless DNS_IGNORE_NS_CHECK reads non-empty, and
  then success; one or more NS records give success, whatever hosts they name.
\<close>

theorem validateDNS_ns_check:
  assumes "\<not> model_UsePrivateDNS rt cluster"
    and "findZone cluster cloud = (t, Inr zone)"
    and "net_LookupNS rt (strip_trailing_dot (zone_Name zone)) = (ns, err)"
  shows "snd (validateDNS rt cluster cloud) =
     (case err of
        Some e \<Rightarrow> Some (NSLookupFailed (strip_trailing_dot (zone_Name zone)) e)
      | None \<Rightarrow>
         if ns = [] \<and> os_Getenv rt ''DNS_IGNORE_NS_CHECK'' = []
         then Some (NoNSRecords (strip_trailing_dot (zone_Name zone)))
         else None)"
  using assms by (simp add: validateDNS_def Let_def TrimSuffix_dot split: option.splits)

theorem validateDNS_ns_check_witness:
  "snd (validateDNS (example_runtime False False Map.empty ([], Some ''no such host''))
          (example_cluster ''foo.io'' [] [] []) (example_cloud [example_zone ''Z1'' ''foo.io.'' []]))
     = Some (NSLookupFailed ''foo.io'' ''no such host'')
   \<and> snd (validateDNS (example_runtime False False Map.empty ([], None))
          (example_cluster ''foo.io'' [] [] []) (example_cloud [example_zone ''Z1'' ''foo.io.'' []]))
     = Some (NoNSRecords ''foo.io'')
   \<and> snd (validateDNS
          (example_runtime False False [''DNS_IGNORE_NS_CHECK'' \<mapsto> ''1''] ([], None))
          (example_cluster ''foo.io'' [] [] []) (example_cloud [example_zone ''Z1'' ''foo.io.'' []]))
     = None
   \<and> snd (validateDNS
          (example_runtime False False Map.empty ([\<lparr>ns_Host = ''ns.elsewhere.net.''\<rparr>], None))
          (example_cluster ''foo.io'' [] [] []) (example_cloud [example_zone ''Z1'' ''foo.io.'' []]))
     = None"
proof -
  have not_private: "\<not> model_UsePrivateDNS (example_runtime False False env answer) c" for env answer c
    by (simp add: example_runtime_def)
  have lookup: "net_LookupNS (example_runtime False False env (ns, err)) n = (ns, err)"
    for env ns err n
    by (simp add: example_runtime_def)
  show ?thesis
    using validateDNS_ns_check [OF not_private [of Map.empty "([], Some ''no such host'')"]
          findZone_example [of "[]" "[]" "[]" "[]"]
          lookup [of Map.empty "[]" "Some ''no such host''"]]
      validateDNS_ns_check [OF not_private [of Map.empty "([], None)"]
          findZone_example [of "[]" "[]" "[]" "[]"] lookup [of Map.empty "[]" None]]
      validateDNS_ns_check [OF not_private [of "[''DNS_IGNORE_NS_CHECK'' \<mapsto> ''1'']" "([], None)"]
          findZone_example [of "[]" "[]" "[]" "[]"]
          lookup [of "[''DNS_IGNORE_NS_CHECK'' \<mapsto> ''1'']" "[]" None]]
      validateDNS_ns_check [OF
          not_private [of Map.empty "([\<lparr>ns_Host = ''ns.elsewhere.net.''\<rparr>], None)"]
          findZone_example [of "[]" "[]" "[]" "[]"]
          lookup [of Map.empty "[\<lparr>ns_Host = ''ns.elsewhere.net.''\<rparr>]" None]]
    by (simp add: example_zone_def strip_trailing_dot_def os_Getenv_def example_runtime_def)
qed

text \<open>
  C10. With no NS record found, validation succeeds exactly when DNS_IGNORE_NS_CHECK is set to
  a non-empty value. Setting it to the empty string is the same as leaving it unset, and
  NoNSRecords stays fatal.
\<close>

theorem validateDNS_override_nonempty:
  assumes "\<not> model_UsePrivateDNS rt cluster"
    and "findZone cluster cloud = (t, Inr zone)"
    and "net_LookupNS rt (strip_trailing_dot (zone_Name zone)) = ([], None)"
  shows "snd (validateDNS rt cluster cloud) =
       (case os_environ rt ''DNS_IGNORE_NS_CHECK'' of
          None \<Rightarrow> Some (NoNSRecords (strip_trailing_dot (zone_Name zone)))
        | Some v \<Rightarrow>
            if v = [] then Some (NoNSRecords (strip_trailing_dot (zone_Name zone))) else None)
     \<and> validateDNS (rt\<lparr>os_environ := (os_environ rt)(''DNS_IGNORE_NS_CHECK'' \<mapsto> [])\<rparr>)
         cluster cloud
       = validateDNS (rt\<lparr>os_environ := (os_environ rt)(''DNS_IGNORE_NS_CHECK'' := None)\<rparr>)
           cluster cloud
     \<and> snd (validateDNS (rt\<lparr>os_environ := (os_environ rt)(''DNS_IGNORE_NS_CHECK'' \<mapsto> [])\<rparr>)
         cluster cloud)
       = Some (NoNSRecords (strip_trailing_dot (zone_Name zone)))"
  using assms
  by (simp add: validateDNS_def Let_def TrimSuffix_dot os_Getenv_def split: option.splits)

theorem validateDNS_override_nonempty_witness:
  "snd (validateDNS (example_runtime False False [''DNS_IGNORE_NS_CHECK'' \<mapsto> []] ([], None))
          (example_cluster ''foo.io'' [] [] []) (example_cloud [example_zone ''Z1'' ''foo.io.'' []]))
     = Some (NoNSRecords ''foo.io'')
   \<and> snd (validateDNS (example_runtime False False Map.empty ([], None))
          (example_cluster ''foo.io'' [] [] []) (example_cloud [example_zone ''Z1'' ''foo.io.'' []]))
     = Some (NoNSRecords ''foo.io'')
   \<and> snd (validateDNS (example_runtime False False [''DNS_IGNORE_NS_CHECK'' \<mapsto> ''0''] ([], None))
          (example_cluster ''foo.io'' [] [] []) (example_cloud [example_zone ''Z1'' ''foo.io.'' []]))
     = None"
proof -
  have not_private: "\<not> model_UsePrivateDNS (example_runtime False False env answer) c" for env answer c
    by (simp add: example_runtime_def)
  have lookup: "net_LookupNS (example_runtime False False env ([], None)) n = ([], None)"
    for env n
    by (simp add: example_runtime_def)
  show ?thesis
    using validateDNS_override_nonempty [OF
          not_private [of "[''DNS_IGNORE_NS_CHECK'' \<mapsto> []]" "([], None)"]
          findZone_example [of "[]" "[]" "[]" "[]"]
          lookup [of "[''DNS_IGNORE_NS_CHECK'' \<mapsto> []]"]]
      validateDNS_override_nonempty [OF not_private [of Map.empty "([], None)"]
          findZone_example [of "[]" "[]" "[]" "[]"] lookup [of Map.empty]]
      validateDNS_override_nonempty [OF
          not_private [of "[''DNS_IGNORE_NS_CHECK'' \<mapsto> ''0'']" "([], None)"]
          findZone_example [of "[]" "[]" "[]" "[]"]
          lookup [of "[''DNS_IGNORE_NS_CHECK'' \<mapsto> ''0'']"]]
    by (simp add: example_zone_def strip_trailing_dot_def example_runtime_def)
qed

section \<open>Pre-creation\<close>

text \<open>
  C8. With the feature flag off, or with no hostname to pre-create, precreateDNS succeeds at
  once and makes no provider call.
\<close>

theorem precreateDNS_gate:
  "\<not> featureflag_DNSPreCreate_Enabled rt \<or> buildPrecreateDNSHostnames cluster = []
     \<Longrightarrow> precreateDNS rt cluster cloud = ([], None)"
  by (auto simp: precreateDNS_def Let_def)

theorem precreateDNS_gate_witness:
  "precreateDNS (example_runtime False False Map.empty ([], None))
     (example_cluster ''foo.io'' ''api.foo'' [] [])
     (example_cloud [example_zone ''Z1'' ''foo.io'' []]) = ([], None)
   \<and> precreateDNS (example_runtime False True Map.empty ([], None))
     (example_cluster ''foo.io'' [] [] [])
     (example_cloud [example_zone ''Z1'' ''foo.io'' []]) = ([], None)"
  using precreateDNS_gate [of "example_runtime False False Map.empty ([], None)"
      "example_cluster ''foo.io'' ''api.foo'' [] []"
      "example_cloud [example_zone ''Z1'' ''foo.io'' []]"]
    precreateDNS_gate [of "example_runtime False True Map.empty ([], None)"
      "example_cluster ''foo.io'' [] [] []"
      "example_cloud [example_zone ''Z1'' ''foo.io'' []]"]
  by (simp add: example_runtime_def example_cluster_def buildPrecreateDNSHostnames_def)

text \<open>
  C3, as stated, fails when a hostname is derived twice: the claim promises exactly one
  addition for a desired hostname that is absent from the listing. With the master public
  name and the master internal name both \<^verbatim>\<open>api.foo\<close> and an empty zone, the key
  \<^verbatim>\<open>A::api.foo\<close> is absent and two additions of that name are queued.
\<close>

theorem precreateDNS_queues_twice_counterexample:
  "(''A::'' @ ''api.foo'') \<notin> existing_keys []
   \<and> queued_adds (fst (precreateDNS example_flag_on
       (example_cluster ''foo.io'' ''api.foo'' ''api.foo'' [])
       (example_cloud [example_zone ''Z1'' ''foo.io.'' []])))
     = [placeholder_record ''api.foo'', placeholder_record ''api.foo'']"
proof -
  have ne: "buildPrecreateDNSHostnames
      (example_cluster ''foo.io'' ''api.foo'' ''api.foo'' []) \<noteq> []"
    by (simp add: example_hostnames)
  have m: "missing_hostnames (example_cluster ''foo.io'' ''api.foo'' ''api.foo'' []) []
      = [''api.foo'', ''api.foo'']"
    by (simp add: missing_hostnames_def example_hostnames existing_keys_def
        strip_trailing_dot_def)
  show ?thesis
    by (simp add: m existing_keys_def
        precreateDNS_queued [OF example_flag_on_enabled ne
          findZone_example [of "''api.foo''" "''api.foo''" "[]" "[]"]
          example_zone_rrsets example_rrsets_list])
qed

text \<open>
  C3, amended. When pre-creation reaches its loop, the additions queued are exactly the
  placeholder records (name the normalised hostname, data 203.0.113.123, TTL 10, type A) of
  the entries of the derived hostname list whose key \<^verbatim>\<open>A::hostname\<close> is absent from the
  listing: one for each such entry, in list order, so a hostname derived twice is queued
  twice. The changeset is applied once, with all of them, when at least one was queued, and
  not at all otherwise.
\<close>

theorem precreateDNS_queues_missing:
  assumes "featureflag_DNSPreCreate_Enabled rt"
    and "buildPrecreateDNSHostnames cluster \<noteq> []"
    and "findZone cluster cloud = (t, Inr zone)"
    and "zone_ResourceRecordSets zone = Some rrs"
    and "rrsets_List rrs = Inr records"
  shows "queued_adds (fst (precreateDNS rt cluster cloud)) =
           map placeholder_record (missing_hostnames cluster records)
       \<and> apply_calls (fst (precreateDNS rt cluster cloud)) =
           (if queued_adds (fst (precreateDNS rt cluster cloud)) = [] then []
            else [queued_adds (fst (precreateDNS rt cluster cloud))])"
  by (simp add: precreateDNS_queued [OF assms])

theorem precreateDNS_queues_missing_witness:
  "queued_adds (fst (precreateDNS example_flag_on
       (example_cluster ''foo.io'' ''api.foo.'' ''api.internal.foo'' [])
       (example_cloud [example_zone ''Z1'' ''foo.io.''
          [\<lparr>rrs_Name = ''api.internal.foo.'', rrs_Rrdatas = [''10.0.0.1''], rrs_Ttl = 60,
            rrs_Type = ''A''\<rparr>]])))
     = [\<lparr>rrs_Name = ''api.foo'', rrs_Rrdatas = [''203.0.113.123''], rrs_Ttl = 10,
         rrs_Type = ''A''\<rparr>]
   \<and> apply_calls (fst (precreateDNS example_flag_on
       (example_cluster ''foo.io'' ''api.foo.'' ''api.internal.foo'' [])
       (example_cloud [example_zone ''Z1'' ''foo.io.''
          [\<lparr>rrs_Name = ''api.internal.foo.'', rrs_Rrdatas = [''10.0.0.1''], rrs_Ttl = 60,
            rrs_Type = ''A''\<rparr>]])))
     = [[\<lparr>rrs_Name = ''api.foo'', rrs_Rrdatas = [''203.0.113.123''], rrs_Ttl = 10,
          rrs_Type = ''A''\<rparr>]]"
proof -
  have ne: "buildPrecreateDNSHostnames
      (example_cluster ''foo.io'' ''api.foo.'' ''api.internal.foo'' []) \<noteq> []"
    by (simp add: example_hostnames)
  show ?thesis
    using precreateDNS_queues_missing [OF example_flag_on_enabled ne
        findZone_example [of "''api.foo.''" "''api.internal.foo''" "[]"
          "[\<lparr>rrs_Name = ''api.internal.foo.'', rrs_Rrdatas = [''10.0.0.1''], rrs_Ttl = 60,
             rrs_Type = ''A''\<rparr>]"]
        example_zone_rrsets example_rrsets_list]
    by (simp add: missing_hostnames_def example_hostnames existing_keys_def record_key_def
        strip_trailing_dot_def placeholder_record_def)
qed




text \<open>
  C9, as stated, fails: the loop looks each hostname up in the map built from the listing
  and never records what it has queued, so a hostname derived twice and absent from the zone
  is queued twice. Here the master public name and the master internal name are both
  \<^verbatim>\<open>api.foo\<close> and the zone is empty.
\<close>

theorem precreateDNS_duplicate_counterexample:
  "count_list (map rrs_Name (queued_adds (fst (precreateDNS example_flag_on
       (example_cluster ''foo.io'' ''api.foo'' ''api.foo'' [])
       (example_cloud [example_zone ''Z1'' ''foo.io.'' []]))))) ''api.foo'' = 2"
proof -
  have ne: "buildPrecreateDNSHostnames
      (example_cluster ''foo.io'' ''api.foo'' ''api.foo'' []) \<noteq> []"
    by (simp add: example_hostnames)
  show ?thesis
    unfolding precreateDNS_queued [OF example_flag_on_enabled ne
        findZone_example [of "''api.foo''" "''api.foo''" "[]" "[]"]
        example_zone_rrsets example_rrsets_list]
    by (simp add: missing_hostnames_def example_hostnames existing_keys_def
        strip_trailing_dot_def placeholder_record_def)
qed

text \<open>
  C9, amended. The number of additions queued under a name is the number of times that name
  occurs among the normalised derived hostnames when its key is absent from the listing,
  and zero when it is present: duplicates are not removed before the write.
\<close>

theorem precreateDNS_adds_per_occurrence:
  assumes "featureflag_DNSPreCreate_Enabled rt"
    and "buildPrecreateDNSHostnames cluster \<noteq> []"
    and "findZone cluster cloud = (t, Inr zone)"
    and "zone_ResourceRecordSets zone = Some rrs"
    and "rrsets_List rrs = Inr records"
  shows "count_list (map rrs_Name (queued_adds (fst (precreateDNS rt cluster cloud)))) n =
     (if (''A::'' @ n) \<in> existing_keys records then 0
      else count_list (map strip_trailing_dot (buildPrecreateDNSHostnames cluster)) n)"
  unfolding precreateDNS_queued [OF assms] count_list_map_placeholder
  by (simp add: missing_hostnames_def count_list_filter)

theorem precreateDNS_adds_per_occurrence_witness:
  "count_list (map rrs_Name (queued_adds (fst (precreateDNS example_flag_on
       (example_cluster ''foo.io'' ''api.foo'' ''api.foo.'' [])
       (example_cloud [example_zone ''Z1'' ''foo.io.'' []]))))) ''api.foo'' = 2"
proof -
  have ne: "buildPrecreateDNSHostnames
      (example_cluster ''foo.io'' ''api.foo'' ''api.foo.'' []) \<noteq> []"
    by (simp add: example_hostnames)
  show ?thesis
    using precreateDNS_adds_per_occurrence [OF example_flag_on_enabled ne
        findZone_example [of "''api.foo''" "''api.foo.''" "[]" "[]"]
        example_zone_rrsets example_rrsets_list, where n = "''api.foo''"]
    by (simp add: example_hostnames existing_keys_def strip_trailing_dot_def)
qed




end
